theory Spec2Isabelle
  imports Main "HOL-Library.Word" "HOL-Library.Signed_Division"
begin

section \<open>The servo motor device class (motors/servo_motor_class.c)\<close>

text \<open>
  The class is written for the LEGO MINDSTORMS EV3, a 32-bit ARM machine: \<open>int\<close>,
  \<open>unsigned\<close>, \<open>long\<close>, \<open>size_t\<close> and \<open>ssize_t\<close> are all 32 bits wide. Every C integer
  is a \<open>32 word\<close>; a conversion between \<open>int\<close> and \<open>unsigned\<close> keeps the bits, so the
  signedness lives in the operations: \<open><\<close> and \<open>div\<close> are the unsigned ones,
  \<open><s\<close> and \<open>sint\<close> the signed ones.
\<close>

type_synonym cint = "32 word"
type_synonym cunsigned = "32 word"

subsection \<open>Data model\<close>

text \<open>
  Modelled from the spec: the header servo_motor_class.h is not among the sources. The
  enumerations, the table of driver operations and the device structure are the ones the
  spec describes (Command, Polarity, HardwareDriver, ServoMotor) under the names the C
  file uses. The enumerators are listed in the order of the string tables of lines 93-101.
\<close>

datatype servo_motor_command = SERVO_MOTOR_COMMAND_RUN | SERVO_MOTOR_COMMAND_FLOAT

datatype servo_motor_polarity = SERVO_MOTOR_POLARITY_NORMAL | SERVO_MOTOR_POLARITY_INVERTED

text \<open>
  A driver operation takes the driver's context and hands back its C return value and the
  context it leaves behind. The two rate operations may be absent (a null pointer).
\<close>

record 'd servo_motor_ops =
  get_position :: "'d \<Rightarrow> cint \<times> 'd"
  set_position :: "'d \<Rightarrow> cint \<Rightarrow> cint \<times> 'd"
  get_rate :: "('d \<Rightarrow> cint \<times> 'd) option"
  set_rate :: "('d \<Rightarrow> cunsigned \<Rightarrow> cint \<times> 'd) option"

text \<open>
  \<open>ctx\<close> is the field \<open>context\<close> of the C structure (the word is reserved in
  Isabelle). \<open>driver_calls\<close> is a history variable: the calls made through \<open>ops\<close> so
  far, oldest first. The C structure has no such field; it is what lets a theorem say
  which driver calls an operation makes.
\<close>

datatype driver_call = Get_position | Set_position cint

record 'd servo_motor_device =
  name :: string
  port_name :: string
  ops :: "'d servo_motor_ops"
  ctx :: 'd
  min_pulse_ms :: cunsigned
  mid_pulse_ms :: cunsigned
  max_pulse_ms :: cunsigned
  command :: servo_motor_command
  polarity :: servo_motor_polarity
  position :: cint
  driver_calls :: "driver_call list"

text \<open>\<open>motor->ops.get_position(motor->context)\<close>\<close>

definition ops_get_position ::
  "'d servo_motor_device \<Rightarrow> cint \<times> 'd servo_motor_device" where
  "ops_get_position motor =
     (case get_position (ops motor) (ctx motor) of
        (ret, c) \<Rightarrow>
          (ret, motor\<lparr>ctx := c, driver_calls := driver_calls motor @ [Get_position]\<rparr>))"

text \<open>\<open>motor->ops.set_position(motor->context, value)\<close>\<close>

definition ops_set_position ::
  "'d servo_motor_device \<Rightarrow> cint \<Rightarrow> cint \<times> 'd servo_motor_device" where
  "ops_set_position motor v =
     (case set_position (ops motor) (ctx motor) v of
        (ret, c) \<Rightarrow>
          (ret, motor\<lparr>ctx := c, driver_calls := driver_calls motor @ [Set_position v]\<rparr>))"

text \<open>The error number \<open>EINVAL\<close> of the kernel's headers.\<close>

definition EINVAL :: cint where
  "EINVAL = 22"

subsection \<open>servo_motor_class_scale (lines 103-112)\<close>

text \<open>
  The five parameters are \<open>unsigned\<close> and the accumulator is a \<open>long\<close> of the same
  width, so each of \<open>-\<close>, \<open>*=\<close>, \<open>/=\<close> and \<open>+=\<close> converts both operands to
  \<open>unsigned long\<close>: the arithmetic wraps modulo \<open>2 ^ 32\<close> and the division is the unsigned
  one. Dividing by zero is undefined in C: the model returns \<open>None\<close> there.
\<close>

definition servo_motor_class_scale ::
  "cunsigned \<Rightarrow> cunsigned \<Rightarrow> cunsigned \<Rightarrow> cunsigned \<Rightarrow> cunsigned \<Rightarrow> cint option" where
  "servo_motor_class_scale in_min in_max out_min out_max val =
     (let scaled = val - in_min;
          scaled = scaled * (out_max - out_min)
      in if in_max - in_min = 0 then None
         else (let scaled = scaled div (in_max - in_min);
                   scaled = scaled + out_min
               in Some scaled))"

text \<open>
  The same function for a kernel whose \<open>long\<close> is 64 bits wide. There \<open>long\<close> holds every
  \<open>unsigned\<close> value, so the unsigned operands are converted to \<open>long\<close>, the product
  and the division are signed (the kernel is built with wrapping signed overflow), and
  the \<open>return\<close> keeps the low 32 bits. It stands beside the 32-bit function to show
  that the two return the same value wherever the product stays below \<open>2 ^ 32\<close>.
\<close>

definition servo_motor_class_scale_lp64 ::
  "cunsigned \<Rightarrow> cunsigned \<Rightarrow> cunsigned \<Rightarrow> cunsigned \<Rightarrow> cunsigned \<Rightarrow> cint option" where
  "servo_motor_class_scale_lp64 in_min in_max out_min out_max val =
     (let scaled = (ucast (val - in_min) :: 64 word);
          scaled = scaled * ucast (out_max - out_min)
      in if in_max - in_min = 0 then None
         else (let scaled = (word_of_int
                               (sint scaled sdiv sint (ucast (in_max - in_min) :: 64 word))
                             :: 64 word);
                   scaled = scaled + ucast out_min
               in Some (ucast scaled)))"

text \<open>
  The formula of the spec over the integers; \<open>sdiv\<close> is the division that truncates
  toward zero.
\<close>

definition scale_formula :: "int \<Rightarrow> int \<Rightarrow> int \<Rightarrow> int \<Rightarrow> int \<Rightarrow> int" where
  "scale_formula in_min in_max out_min out_max v =
     (v - in_min) * (out_max - out_min) sdiv (in_max - in_min) + out_min"

subsection \<open>servo_motor_class_set_position (lines 125-148)\<close>

definition servo_motor_class_set_position ::
  "'d servo_motor_device \<Rightarrow> cint \<Rightarrow> servo_motor_polarity \<Rightarrow>
     (cint \<times> 'd servo_motor_device) option" where
  "servo_motor_class_set_position motor new_position new_polarity =
     (let motor = motor\<lparr>polarity := new_polarity\<rparr>;
          motor = motor\<lparr>position := new_position\<rparr>
      in if command motor = SERVO_MOTOR_COMMAND_RUN then
           (let new_position =
                  (if new_polarity = SERVO_MOTOR_POLARITY_INVERTED
                   then - new_position else new_position)
            in case (if 0 <s new_position
                     then servo_motor_class_scale 0 100
                            (mid_pulse_ms motor) (max_pulse_ms motor) new_position
                     else servo_motor_class_scale (- 100) 0
                            (min_pulse_ms motor) (mid_pulse_ms motor) new_position) of
                 None \<Rightarrow> None
               | Some scaled_position \<Rightarrow> Some (ops_set_position motor scaled_position))
         else Some (0, motor))"

subsection \<open>The pulse attributes (lines 174-230)\<close>

text \<open>
  \<open>sscanf\<close> belongs to the kernel, not to this file. Each store function takes its
  outcome in place of the text: \<open>Some v\<close> when \<open>sscanf\<close> returned 1 and stored \<open>v\<close>,
  \<open>None\<close> otherwise. The comparisons are between \<open>unsigned\<close> values.
\<close>

definition min_pulse_ms_store ::
  "'d servo_motor_device \<Rightarrow> cunsigned option \<Rightarrow> cint \<Rightarrow> cint \<times> 'd servo_motor_device" where
  "min_pulse_ms_store motor scanned count =
     (case scanned of
        None \<Rightarrow> (- EINVAL, motor)
      | Some v \<Rightarrow>
          if 700 < v \<or> v < 300 then (- EINVAL, motor)
          else (count, motor\<lparr>min_pulse_ms := v\<rparr>))"

definition mid_pulse_ms_store ::
  "'d servo_motor_device \<Rightarrow> cunsigned option \<Rightarrow> cint \<Rightarrow> cint \<times> 'd servo_motor_device" where
  "mid_pulse_ms_store servo scanned count =
     (case scanned of
        None \<Rightarrow> (- EINVAL, servo)
      | Some v \<Rightarrow>
          if 1700 < v \<or> v < 1300 then (- EINVAL, servo)
          else (count, servo\<lparr>mid_pulse_ms := v\<rparr>))"

definition max_pulse_ms_store ::
  "'d servo_motor_device \<Rightarrow> cunsigned option \<Rightarrow> cint \<Rightarrow> cint \<times> 'd servo_motor_device" where
  "max_pulse_ms_store motor scanned count =
     (case scanned of
        None \<Rightarrow> (- EINVAL, motor)
      | Some v \<Rightarrow>
          if 2700 < v \<or> v < 2300 then (- EINVAL, motor)
          else (count, motor\<lparr>max_pulse_ms := v\<rparr>))"

text \<open>The values \<open>register_servo_motor\<close> stores before the device is registered (lines 417-419).\<close>

definition default_pulse_config :: "'d servo_motor_device \<Rightarrow> bool" where
  "default_pulse_config servo \<longleftrightarrow>
     min_pulse_ms servo = 600 \<and> mid_pulse_ms servo = 1500 \<and> max_pulse_ms servo = 2400"

subsection \<open>command_store (lines 240-264)\<close>

definition servo_motor_command_values :: "servo_motor_command \<Rightarrow> string" where
  "servo_motor_command_values c =
     (case c of SERVO_MOTOR_COMMAND_RUN \<Rightarrow> ''run'' | SERVO_MOTOR_COMMAND_FLOAT \<Rightarrow> ''float'')"

text \<open>
  \<open>sysfs_streq\<close> is the kernel's comparison of two C strings that takes a single
  trailing newline on either side for the end of the string. A C string is the list of
  its characters before the terminating zero.
\<close>

fun sysfs_streq :: "string \<Rightarrow> string \<Rightarrow> bool" where
  "sysfs_streq [] [] = True"
| "sysfs_streq [] (c2 # s2) = (c2 = CHR 0x0A \<and> s2 = [])"
| "sysfs_streq (c1 # s1) [] = (c1 = CHR 0x0A \<and> s1 = [])"
| "sysfs_streq (c1 # s1) (c2 # s2) = (c1 = c2 \<and> sysfs_streq s1 s2)"

text \<open>
  The \<open>for\<close> loop over the enumerators, from the ones still to be tried. The field
  \<open>command\<close> is written before the driver is called and is not restored when the call
  fails.
\<close>

fun command_store_loop ::
  "servo_motor_command list \<Rightarrow> 'd servo_motor_device \<Rightarrow> string \<Rightarrow> cint \<Rightarrow>
     (cint \<times> 'd servo_motor_device) option" where
  "command_store_loop [] motor buf sz = Some (- EINVAL, motor)"
| "command_store_loop (i # rest) motor buf sz =
     (if \<not> sysfs_streq buf (servo_motor_command_values i)
      then command_store_loop rest motor buf sz
      else if command motor = i then Some (sz, motor)
      else
        (let motor = motor\<lparr>command := i\<rparr>
         in case (if command motor = SERVO_MOTOR_COMMAND_RUN
                  then servo_motor_class_set_position motor (position motor) (polarity motor)
                  else Some (ops_set_position motor 0)) of
              None \<Rightarrow> None
            | Some (err, motor) \<Rightarrow> if err \<noteq> 0 then Some (err, motor) else Some (sz, motor)))"

definition command_store ::
  "'d servo_motor_device \<Rightarrow> string \<Rightarrow> cint \<Rightarrow> (cint \<times> 'd servo_motor_device) option" where
  "command_store motor buf sz =
     command_store_loop [SERVO_MOTOR_COMMAND_RUN, SERVO_MOTOR_COMMAND_FLOAT] motor buf sz"

subsection \<open>position_show and position_store (lines 296-332)\<close>

text \<open>
  \<open>position_show\<close> either returns the driver's negative value (\<open>Inl\<close>) or prints an
  integer into the buffer (\<open>Inr\<close> of the integer printed). \<open>ret < motor->mid_pulse_ms\<close>
  compares an \<open>int\<close> with an \<open>unsigned\<close>, so it is the unsigned comparison.
\<close>

definition position_show ::
  "'d servo_motor_device \<Rightarrow> ((cint + cint) \<times> 'd servo_motor_device) option" where
  "position_show motor =
     (case ops_get_position motor of
        (ret, motor) \<Rightarrow>
          if ret <s 0 then Some (Inl ret, motor)
          else if ret = 0 then Some (Inr (position motor), motor)
          else if ret < mid_pulse_ms motor
          then map_option (\<lambda>r. (Inr r, motor))
                 (servo_motor_class_scale (min_pulse_ms motor) (mid_pulse_ms motor) (- 100) 0 ret)
          else map_option (\<lambda>r. (Inr r, motor))
                 (servo_motor_class_scale (mid_pulse_ms motor) (max_pulse_ms motor) 0 100 ret))"

definition position_store ::
  "'d servo_motor_device \<Rightarrow> cint option \<Rightarrow> cint \<Rightarrow> (cint \<times> 'd servo_motor_device) option" where
  "position_store motor scanned count =
     (case scanned of
        None \<Rightarrow> Some (- EINVAL, motor)
      | Some v \<Rightarrow>
          if 100 <s v \<or> v <s - 100 then Some (- EINVAL, motor)
          else if position motor \<noteq> v then
            (case servo_motor_class_set_position motor v (polarity motor) of
               None \<Rightarrow> None
             | Some (err, motor) \<Rightarrow>
                 if err \<noteq> 0 then Some (err, motor) else Some (count, motor))
          else Some (count, motor))"

subsection \<open>Two drivers to run the class on\<close>

text \<open>
  A driver whose context is the pulse it was last given, and one whose \<open>set_position\<close>
  always fails with \<open>-EIO\<close>. Neither has the rate operations.
\<close>

definition echo_ops :: "cint servo_motor_ops" where
  "echo_ops =
     \<lparr>get_position = (\<lambda>c. (c, c)), set_position = (\<lambda>c v. (0, v)),
      get_rate = None, set_rate = None\<rparr>"

definition failing_ops :: "cint servo_motor_ops" where
  "failing_ops =
     \<lparr>get_position = (\<lambda>c. (c, c)), set_position = (\<lambda>c v. (- 5, c)),
      get_rate = None, set_rate = None\<rparr>"

definition example_motor :: "cint servo_motor_ops \<Rightarrow> cint servo_motor_device" where
  "example_motor driver =
     \<lparr>name = ''servo'', port_name = ''in1'', ops = driver, ctx = 0,
      min_pulse_ms = 600, mid_pulse_ms = 1500, max_pulse_ms = 2400,
      command = SERVO_MOTOR_COMMAND_FLOAT, polarity = SERVO_MOTOR_POLARITY_NORMAL,
      position = 0, driver_calls = []\<rparr>"

section \<open>Properties\<close>

subsection \<open>Helper facts\<close>

lemma float_is_not_run: "sysfs_streq buf ''float'' \<Longrightarrow> \<not> sysfs_streq buf ''run''"
  by (cases buf) auto

lemma scale_upper_defined:
  "\<exists>pulse. servo_motor_class_scale 0 100 lo hi p = Some pulse"
  by (simp add: servo_motor_class_scale_def)

lemma scale_lower_defined:
  "\<exists>pulse. servo_motor_class_scale (- 100) 0 lo hi p = Some pulse"
  by (simp add: servo_motor_class_scale_def)

lemma command_store_float_to_run:
  assumes "command motor = SERVO_MOTOR_COMMAND_FLOAT" and "sysfs_streq buf ''run''"
  shows "command_store motor buf sz =
           (case servo_motor_class_set_position (motor\<lparr>command := SERVO_MOTOR_COMMAND_RUN\<rparr>)
                   (position motor) (polarity motor) of
              None \<Rightarrow> None
            | Some (err, motor') \<Rightarrow> Some (if err \<noteq> 0 then err else sz, motor'))"
  using assms
  by (auto simp: command_store_def servo_motor_command_values_def split: option.splits)

lemma set_position_running:
  assumes "command motor = SERVO_MOTOR_COMMAND_RUN"
    and "p = (if pol = SERVO_MOTOR_POLARITY_INVERTED then - percent else percent)"
    and "(if 0 < sint p
          then servo_motor_class_scale 0 100 (mid_pulse_ms motor) (max_pulse_ms motor) p
          else servo_motor_class_scale (- 100) 0 (min_pulse_ms motor) (mid_pulse_ms motor) p)
           = Some pulse"
  shows "servo_motor_class_set_position motor percent pol =
           Some (ops_set_position (motor\<lparr>polarity := pol, position := percent\<rparr>) pulse)"
  using assms by (auto simp: servo_motor_class_set_position_def word_sless_alt split: if_splits)

lemma set_position_calls_driver:
  assumes "command motor = SERVO_MOTOR_COMMAND_RUN"
    and "p = (if pol = SERVO_MOTOR_POLARITY_INVERTED then - percent else percent)"
  shows "\<exists>pulse.
           (if 0 < sint p
            then servo_motor_class_scale 0 100 (mid_pulse_ms motor) (max_pulse_ms motor) p
            else servo_motor_class_scale (- 100) 0 (min_pulse_ms motor) (mid_pulse_ms motor) p)
             = Some pulse \<and>
           servo_motor_class_set_position motor percent pol =
             Some (ops_set_position (motor\<lparr>polarity := pol, position := percent\<rparr>) pulse)"
proof -
  obtain pulse where pulse: "(if 0 < sint p
          then servo_motor_class_scale 0 100 (mid_pulse_ms motor) (max_pulse_ms motor) p
          else servo_motor_class_scale (- 100) 0 (min_pulse_ms motor) (mid_pulse_ms motor) p)
           = Some pulse"
    using scale_upper_defined [of "mid_pulse_ms motor" "max_pulse_ms motor" p]
      scale_lower_defined [of "min_pulse_ms motor" "mid_pulse_ms motor" p]
    by (cases "0 < sint p") auto
  moreover have "servo_motor_class_set_position motor percent pol =
           Some (ops_set_position (motor\<lparr>polarity := pol, position := percent\<rparr>) pulse)"
    using assms pulse by (intro set_position_running [where p = p]) simp_all
  ultimately show ?thesis by blast
qed

lemma set_position_stores:
  "servo_motor_class_set_position motor v pol = Some (err, motor') \<Longrightarrow>
     position motor' = v \<and> polarity motor' = pol"
  by (auto simp: servo_motor_class_set_position_def Let_def ops_set_position_def
        split: if_splits option.splits prod.splits)

lemma set_position_defined:
  "\<exists>err motor'. servo_motor_class_set_position motor v pol = Some (err, motor')"
proof (cases "command motor")
  case SERVO_MOTOR_COMMAND_RUN
  obtain pulse where "servo_motor_class_set_position motor v pol =
      Some (ops_set_position (motor\<lparr>polarity := pol, position := v\<rparr>) pulse)"
    using set_position_calls_driver [OF SERVO_MOTOR_COMMAND_RUN refl, of pol v] by blast
  then show ?thesis
    by (cases "ops_set_position (motor\<lparr>polarity := pol, position := v\<rparr>) pulse") auto
next
  case SERVO_MOTOR_COMMAND_FLOAT
  then show ?thesis by (simp add: servo_motor_class_set_position_def)
qed

lemma driver_calls_ops_set_position:
  "ops_set_position motor v = (err, motor') \<Longrightarrow>
     driver_calls motor' = driver_calls motor @ [Set_position v] \<and>
     position motor' = position motor \<and> polarity motor' = polarity motor \<and>
     command motor' = command motor"
  by (auto simp: ops_set_position_def split: prod.splits)

lemma uint_of_nonneg_sint:
  fixes w :: "32 word"
  assumes "0 \<le> sint w"
  shows "uint w = sint w"
proof -
  have "sint w < 2 ^ 32" using sint_lt [of w] by simp
  then have "take_bit 32 (sint w) = sint w"
    using assms by (intro take_bit_int_eq_self) simp_all
  then show ?thesis using uint_sint [of w] by simp
qed

lemma unsigned_less_of_positive:
  fixes raw mid :: "32 word"
  assumes "0 \<le> sint raw"
  shows "raw < mid \<longleftrightarrow> sint raw < uint mid"
  using uint_of_nonneg_sint [OF assms] by (simp add: word_less_def)

lemma position_show_error:
  assumes "get_position (ops motor) (ctx motor) = (raw, c)"
    and "motor' = motor\<lparr>ctx := c, driver_calls := driver_calls motor @ [Get_position]\<rparr>"
    and "sint raw < 0"
  shows "position_show motor = Some (Inl raw, motor')"
  using assms by (simp add: position_show_def ops_get_position_def word_sless_alt)

lemma position_show_idle:
  assumes "get_position (ops motor) (ctx motor) = (raw, c)"
    and "motor' = motor\<lparr>ctx := c, driver_calls := driver_calls motor @ [Get_position]\<rparr>"
    and "raw = 0"
  shows "position_show motor = Some (Inr (position motor), motor')"
  using assms by (simp add: position_show_def ops_get_position_def word_sless_alt)

lemma position_show_low:
  assumes "get_position (ops motor) (ctx motor) = (raw, c)"
    and "motor' = motor\<lparr>ctx := c, driver_calls := driver_calls motor @ [Get_position]\<rparr>"
    and "0 < sint raw \<and> sint raw < uint (mid_pulse_ms motor)"
  shows "position_show motor =
           map_option (\<lambda>v. (Inr v, motor'))
             (servo_motor_class_scale (min_pulse_ms motor) (mid_pulse_ms motor) (- 100) 0 raw)"
proof -
  have "raw \<noteq> 0" using assms(3) by auto
  moreover have "raw < mid_pulse_ms motor"
    using assms(3) by (simp add: unsigned_less_of_positive)
  ultimately show ?thesis
    using assms by (simp add: position_show_def ops_get_position_def word_sless_alt)
qed

lemma position_show_high:
  assumes "get_position (ops motor) (ctx motor) = (raw, c)"
    and "motor' = motor\<lparr>ctx := c, driver_calls := driver_calls motor @ [Get_position]\<rparr>"
    and "0 < sint raw \<and> uint (mid_pulse_ms motor) \<le> sint raw"
  shows "position_show motor =
           map_option (\<lambda>v. (Inr v, motor'))
             (servo_motor_class_scale (mid_pulse_ms motor) (max_pulse_ms motor) 0 100 raw)"
proof -
  have "raw \<noteq> 0" using assms(3) by auto
  moreover have "\<not> raw < mid_pulse_ms motor"
    using assms(3) by (simp add: unsigned_less_of_positive)
  ultimately show ?thesis
    using assms by (simp add: position_show_def ops_get_position_def word_sless_alt)
qed

lemma uint_diff_sint:
  fixes x y :: "32 word"
  assumes "sint y \<le> sint x"
  shows "uint (x - y) = sint x - sint y"
proof -
  have "x - y = word_of_int (sint x - sint y)" by simp
  then have "uint (x - y) = (sint x - sint y) mod 2 ^ 32"
    by (simp only: uint_word_of_int) simp
  moreover have "sint x - sint y < 2 ^ 32"
    using sint_lt [of x] sint_ge [of y] by simp
  ultimately show ?thesis using assms by simp
qed

lemma sdiv_nonneg_pos:
  fixes a c :: int
  assumes "0 \<le> a" and "0 < c"
  shows "a sdiv c = a div c"
  using assms by (cases "a = 0") (simp_all add: signed_divide_int_def)

lemma scaled_quotient_le:
  fixes a b c :: int
  assumes "0 \<le> a" "a \<le> c" "0 \<le> b" "0 < c"
  shows "0 \<le> a * b div c \<and> a * b div c \<le> b"
proof
  show "0 \<le> a * b div c" using assms by (simp add: pos_imp_zdiv_nonneg_iff)
  have "a * b \<le> c * b" using assms(2) assms(3) by (rule mult_right_mono)
  then have "a * b \<le> b * c" by (simp add: mult.commute)
  then have "a * b div c \<le> b * c div c" using assms(4) by (rule zdiv_mono1)
  then show "a * b div c \<le> b" using assms(4) by simp
qed

lemma le_div_iff_mult_le:
  fixes a c n :: int
  assumes "0 < c"
  shows "n \<le> a div c \<longleftrightarrow> n * c \<le> a"
proof
  assume "n \<le> a div c"
  then have "n * c \<le> (a div c) * c" using assms by (simp add: mult_right_mono)
  also have "\<dots> \<le> a"
    using assms pos_mod_sign [of c a] div_mult_mod_eq [of a c] by linarith
  finally show "n * c \<le> a" .
next
  assume "n * c \<le> a"
  then have "n * c div c \<le> a div c" using assms by (rule zdiv_mono1)
  then show "n \<le> a div c" using assms by simp
qed

lemma scale_no_wrap:
  fixes in_min in_max out_min out_max val :: "32 word"
  assumes "in_max \<noteq> in_min"
    and "uint (val - in_min) * uint (out_max - out_min) < 2 ^ 32"
  shows "servo_motor_class_scale in_min in_max out_min out_max val =
           Some (word_of_int (uint (val - in_min) * uint (out_max - out_min)
                    div uint (in_max - in_min)) + out_min)"
proof -
  have m: "uint ((val - in_min) * (out_max - out_min)) =
             uint (val - in_min) * uint (out_max - out_min)"
    using assms(2) uint_mult_lem [of "val - in_min" "out_max - out_min"] by simp
  have "(val - in_min) * (out_max - out_min) div (in_max - in_min) =
          word_of_int (uint ((val - in_min) * (out_max - out_min) div (in_max - in_min)))"
    by (simp only: word_of_int_uint)
  also have "\<dots> = word_of_int (uint (val - in_min) * uint (out_max - out_min)
                    div uint (in_max - in_min))"
    by (simp only: uint_div m)
  finally show ?thesis
    using assms(1) by (simp add: servo_motor_class_scale_def Let_def)
qed

lemma sint_of_small:
  "0 \<le> k \<Longrightarrow> k < 2 ^ 31 \<Longrightarrow> sint (word_of_int k :: 32 word) = k"
  by (simp add: sint_sbintrunc' signed_take_bit_int_eq_self)

lemma sint_small_64: "0 \<le> k \<Longrightarrow> k < 2 ^ 63 \<Longrightarrow> sint (word_of_int k :: 64 word) = k"
  by (simp add: sint_sbintrunc' signed_take_bit_int_eq_self)

lemma ucast_is_uint: "(ucast (w :: 32 word) :: 64 word) = word_of_int (uint w)"
  by simp

lemma low_bits_of_sum:
  "(ucast ((word_of_int k :: 64 word) + ucast (w :: 32 word)) :: 32 word) = word_of_int k + w"
proof -
  have "(word_of_int k :: 64 word) + ucast w = word_of_int (k + uint w)"
    by simp
  then have "uint ((word_of_int k :: 64 word) + ucast w) = take_bit 64 (k + uint w)"
    by (simp only: uint_word_of_int_eq) simp
  then have "(ucast ((word_of_int k :: 64 word) + ucast w) :: 32 word) =
               word_of_int (take_bit 64 (k + uint w))"
    by (metis of_int_uint)
  also have "\<dots> = word_of_int (k + uint w)"
  proof -
    have "take_bit LENGTH(32) (take_bit 64 (k + uint w)) = take_bit LENGTH(32) (k + uint w)"
      by simp
    then show ?thesis by (simp only: word_of_int_eq_iff)
  qed
  also have "\<dots> = word_of_int k + w" by simp
  finally show ?thesis .
qed

lemma scale_lp64_no_wrap:
  fixes in_min in_max out_min out_max val :: "32 word"
  assumes "in_max \<noteq> in_min"
    and "uint (val - in_min) * uint (out_max - out_min) < 2 ^ 32"
  shows "servo_motor_class_scale_lp64 in_min in_max out_min out_max val =
           Some (word_of_int (uint (val - in_min) * uint (out_max - out_min)
                    div uint (in_max - in_min)) + out_min)"
proof -
  define x where "x = val - in_min"
  define y where "y = out_max - out_min"
  define c where "c = in_max - in_min"
  have c0: "c \<noteq> 0" using assms(1) by (simp add: c_def)
  have "uint c \<noteq> 0" using c0 by (simp add: uint_0_iff)
  then have cpos: "0 < uint c" using uint_nonnegative [of c] by linarith
  have small: "uint x * uint y < 2 ^ 63"
    using assms(2) by (simp add: x_def y_def)
  have prod: "(ucast x :: 64 word) * ucast y = word_of_int (uint x * uint y)"
    by simp
  have "sint (word_of_int (uint x * uint y) :: 64 word) = uint x * uint y"
    using small by (intro sint_small_64) simp_all
  then have sp: "sint ((ucast x :: 64 word) * ucast y) = uint x * uint y"
    by (simp only: prod)
  have "sint (word_of_int (uint c) :: 64 word) = uint c"
    using uint_lt2p [of c] by (intro sint_small_64) simp_all
  then have sc: "sint (ucast c :: 64 word) = uint c"
    by (simp only: ucast_is_uint)
  have "sint ((ucast x :: 64 word) * ucast y) sdiv sint (ucast c :: 64 word) =
          uint x * uint y div uint c"
    using cpos by (simp only: sp sc) (simp add: sdiv_nonneg_pos)
  then show ?thesis
    using c0 unfolding servo_motor_class_scale_lp64_def Let_def x_def [symmetric]
      y_def [symmetric] c_def [symmetric]
    by (simp only: low_bits_of_sum) simp
qed

lemma scale_widths_agree:
  fixes in_min in_max out_min out_max val :: "32 word"
  assumes "uint (val - in_min) * uint (out_max - out_min) < 2 ^ 32"
  shows "servo_motor_class_scale_lp64 in_min in_max out_min out_max val =
           servo_motor_class_scale in_min in_max out_min out_max val"
proof (cases "in_max = in_min")
  case True
  then show ?thesis
    by (simp add: servo_motor_class_scale_lp64_def servo_motor_class_scale_def)
next
  case False
  then show ?thesis
    using scale_no_wrap [OF False assms] scale_lp64_no_wrap [OF False assms] by simp
qed

subsection \<open>Writing the position attribute\<close>

text \<open>
  Claim C6. A written position outside \<open>[-100, 100]\<close> (150 and -101 among them) makes
  \<open>position_store\<close> return \<open>-EINVAL\<close> with the device exactly as it was: the stored
  position and every other field are unchanged and the history of driver calls has not
  grown. A written position in range that equals the stored one makes it return the
  byte count, again with the device exactly as it was.
\<close>

theorem position_store_rejects_or_skips:
  "(100 < sint v \<or> sint v < - 100 \<longrightarrow>
      position_store motor (Some v) count = Some (- EINVAL, motor)) \<and>
   position_store motor (Some 150) count = Some (- EINVAL, motor) \<and>
   position_store motor (Some (- 101)) count = Some (- EINVAL, motor) \<and>
   (- 100 \<le> sint v \<and> sint v \<le> 100 \<and> v = position motor \<longrightarrow>
      position_store motor (Some v) count = Some (count, motor))"
  by (auto simp: position_store_def word_sless_alt)

theorem position_store_rejects_or_skips_witness:
  "(100 < sint (150 :: cint) \<or> sint (150 :: cint) < - 100) \<and>
   position_store (example_motor echo_ops) (Some 150) 4 =
     Some (- EINVAL, example_motor echo_ops) \<and>
   - 100 \<le> sint (0 :: cint) \<and> sint (0 :: cint) \<le> 100 \<and>
   0 = position (example_motor echo_ops) \<and>
   position_store (example_motor echo_ops) (Some 0) 2 = Some (2, example_motor echo_ops)"
  using position_store_rejects_or_skips [of 150 "example_motor echo_ops" 4]
    position_store_rejects_or_skips [of 0 "example_motor echo_ops" 2]
  by (simp add: example_motor_def)

subsection \<open>Writing the command attribute\<close>

text \<open>
  Claim C7. When the command is Run and \<open>float\<close> is written (with or without a trailing
  newline), \<open>command_store\<close> calls the driver's own \<open>set_position\<close> once, on the
  driver's context and with the value 0, not a scaled pulse, whatever the stored position
  is. The device afterwards is the device before with the command Float, the context the
  driver left and that one call added to the history: the stored position is unaltered.
  The driver's value is returned when it is not zero, the byte count otherwise.
\<close>

theorem command_store_run_to_float:
  assumes "command motor = SERVO_MOTOR_COMMAND_RUN" and "sysfs_streq buf ''float''"
    and "set_position (ops motor) (ctx motor) 0 = (err, c)"
    and "motor' = motor\<lparr>ctx := c, command := SERVO_MOTOR_COMMAND_FLOAT,
                         driver_calls := driver_calls motor @ [Set_position 0]\<rparr>"
  shows "command_store motor buf sz = Some (if err \<noteq> 0 then err else sz, motor') \<and>
         ops_set_position (motor\<lparr>command := SERVO_MOTOR_COMMAND_FLOAT\<rparr>) 0 = (err, motor') \<and>
         driver_calls motor' = driver_calls motor @ [Set_position 0] \<and>
         position motor' = position motor \<and>
         command motor' = SERVO_MOTOR_COMMAND_FLOAT"
  using assms float_is_not_run [OF assms(2)]
  by (auto simp: command_store_def servo_motor_command_values_def ops_set_position_def
           split: prod.splits)

theorem command_store_run_to_float_witness:
  "command (example_motor echo_ops
              \<lparr>ctx := 1950, command := SERVO_MOTOR_COMMAND_RUN, position := 50\<rparr>) =
     SERVO_MOTOR_COMMAND_RUN \<and>
   sysfs_streq ''float'' ''float'' \<and>
   set_position (ops (example_motor echo_ops
                        \<lparr>ctx := 1950, command := SERVO_MOTOR_COMMAND_RUN, position := 50\<rparr>))
     1950 0 = (0, 0) \<and>
   command_store (example_motor echo_ops
                    \<lparr>ctx := 1950, command := SERVO_MOTOR_COMMAND_RUN, position := 50\<rparr>)
       ''float'' 5 =
     Some (5, example_motor echo_ops
                \<lparr>ctx := 0, command := SERVO_MOTOR_COMMAND_FLOAT, position := 50,
                 driver_calls := [Set_position 0]\<rparr>) \<and>
   command (example_motor failing_ops
              \<lparr>ctx := 1950, command := SERVO_MOTOR_COMMAND_RUN, position := 50\<rparr>) =
     SERVO_MOTOR_COMMAND_RUN \<and>
   set_position (ops (example_motor failing_ops
                        \<lparr>ctx := 1950, command := SERVO_MOTOR_COMMAND_RUN, position := 50\<rparr>))
     1950 0 = (- 5, 1950) \<and>
   command_store (example_motor failing_ops
                    \<lparr>ctx := 1950, command := SERVO_MOTOR_COMMAND_RUN, position := 50\<rparr>)
       ''float'' 5 =
     Some (- 5, example_motor failing_ops
                  \<lparr>ctx := 1950, command := SERVO_MOTOR_COMMAND_FLOAT, position := 50,
                   driver_calls := [Set_position 0]\<rparr>)"
  using command_store_run_to_float
    [where motor = "example_motor echo_ops
                      \<lparr>ctx := 1950, command := SERVO_MOTOR_COMMAND_RUN, position := 50\<rparr>"
       and buf = "''float''" and sz = 5 and err = 0 and c = 0
       and motor' = "example_motor echo_ops
                \<lparr>ctx := 0, command := SERVO_MOTOR_COMMAND_FLOAT, position := 50,
                 driver_calls := [Set_position 0]\<rparr>"]
    command_store_run_to_float
    [where motor = "example_motor failing_ops
                      \<lparr>ctx := 1950, command := SERVO_MOTOR_COMMAND_RUN, position := 50\<rparr>"
       and buf = "''float''" and sz = 5 and err = "- 5" and c = 1950
       and motor' = "example_motor failing_ops
                  \<lparr>ctx := 1950, command := SERVO_MOTOR_COMMAND_FLOAT, position := 50,
                   driver_calls := [Set_position 0]\<rparr>"]
  by (simp add: example_motor_def echo_ops_def failing_ops_def)

subsection \<open>From a percentage to a pulse\<close>

text \<open>
  Claim C1, as stated: writing \<open>run\<close> while the command is Float, the stored position is
  50 and the pulses are the default ones calls the driver's \<open>set_position\<close> with the pulse
  1950. The claim does not fix the polarity. With the polarity Inverted the percentage
  becomes \<open>-50\<close> and the one driver call is \<open>set_position\<close> with the pulse
  \<open>servo_motor_class_scale (-100) 0 600 1500 (-50) = 1050\<close>.
\<close>

theorem float_to_run_inverted_counterexample:
  "command (example_motor echo_ops
              \<lparr>polarity := SERVO_MOTOR_POLARITY_INVERTED, position := 50\<rparr>) =
     SERVO_MOTOR_COMMAND_FLOAT \<and>
   position (example_motor echo_ops
               \<lparr>polarity := SERVO_MOTOR_POLARITY_INVERTED, position := 50\<rparr>) = 50 \<and>
   default_pulse_config (example_motor echo_ops
                           \<lparr>polarity := SERVO_MOTOR_POLARITY_INVERTED, position := 50\<rparr>) \<and>
   command_store (example_motor echo_ops
                    \<lparr>polarity := SERVO_MOTOR_POLARITY_INVERTED, position := 50\<rparr>) ''run'' 3 =
     Some (3, example_motor echo_ops
                \<lparr>ctx := 1050, command := SERVO_MOTOR_COMMAND_RUN,
                 polarity := SERVO_MOTOR_POLARITY_INVERTED, position := 50,
                 driver_calls := [Set_position 1050]\<rparr>) \<and>
   servo_motor_class_scale (- 100) 0 600 1500 (- 50) = Some 1050 \<and>
   (1050 :: cint) \<noteq> 1950"
  by (simp add: command_store_def servo_motor_command_values_def
        servo_motor_class_set_position_def servo_motor_class_scale_def
        default_pulse_config_def example_motor_def echo_ops_def ops_set_position_def
        word_sless_alt Let_def)

text \<open>
  Claim C1, amended: while the command is Run, \<open>servo_motor_class_set_position\<close> negates
  the percentage when the polarity is Inverted and, with \<open>p\<close> the outcome, calls the
  driver's own \<open>set_position\<close> with \<open>servo_motor_class_scale 0 100 mid max p\<close> when
  \<open>p > 0\<close> and with \<open>servo_motor_class_scale (-100) 0 min mid p\<close> when \<open>p \<le> 0\<close>, for
  every pulse configuration; neither call of the scaling function can divide by zero. In
  particular, writing \<open>run\<close> while the command is Float, the stored position is 50 and the
  pulses are the default ones makes a single driver call, \<open>set_position\<close> with the pulse
  1950 when the polarity is Normal and with the pulse 1050 when it is Inverted.
\<close>

theorem set_position_pulse:
  "(command motor = SERVO_MOTOR_COMMAND_RUN \<and>
    p = (if pol = SERVO_MOTOR_POLARITY_INVERTED then - percent else percent) \<longrightarrow>
      (\<exists>pulse.
         (if 0 < sint p
          then servo_motor_class_scale 0 100 (mid_pulse_ms motor) (max_pulse_ms motor) p
          else servo_motor_class_scale (- 100) 0 (min_pulse_ms motor) (mid_pulse_ms motor) p)
           = Some pulse \<and>
         servo_motor_class_set_position motor percent pol =
           Some (ops_set_position (motor\<lparr>polarity := pol, position := percent\<rparr>) pulse) \<and>
         (\<exists>err c.
            set_position (ops motor) (ctx motor) pulse = (err, c) \<and>
            servo_motor_class_set_position motor percent pol =
              Some (err, motor\<lparr>ctx := c, polarity := pol, position := percent,
                               driver_calls := driver_calls motor @ [Set_position pulse]\<rparr>)))) \<and>
   (command motor = SERVO_MOTOR_COMMAND_FLOAT \<and> position motor = 50 \<and>
    default_pulse_config motor \<and> sysfs_streq buf ''run'' \<and>
    pulse50 = (if polarity motor = SERVO_MOTOR_POLARITY_NORMAL then 1950 else 1050) \<longrightarrow>
      servo_motor_class_scale 0 100 1500 2400 50 = Some 1950 \<and>
      (\<exists>err motor'.
         ops_set_position (motor\<lparr>command := SERVO_MOTOR_COMMAND_RUN\<rparr>) pulse50 = (err, motor') \<and>
         command_store motor buf sz = Some (if err \<noteq> 0 then err else sz, motor') \<and>
         driver_calls motor' = driver_calls motor @ [Set_position pulse50] \<and>
         set_position (ops motor) (ctx motor) pulse50 = (err, ctx motor')))"
proof (intro conjI impI)
  assume a: "command motor = SERVO_MOTOR_COMMAND_RUN \<and>
    p = (if pol = SERVO_MOTOR_POLARITY_INVERTED then - percent else percent)"
  let ?set = "motor\<lparr>polarity := pol, position := percent\<rparr>"
  obtain pulse where pulse: "(if 0 < sint p
          then servo_motor_class_scale 0 100 (mid_pulse_ms motor) (max_pulse_ms motor) p
          else servo_motor_class_scale (- 100) 0 (min_pulse_ms motor) (mid_pulse_ms motor) p)
           = Some pulse"
    and sp: "servo_motor_class_set_position motor percent pol =
               Some (ops_set_position ?set pulse)"
    using a set_position_calls_driver [of motor p pol percent] by blast
  obtain err c where d: "set_position (ops motor) (ctx motor) pulse = (err, c)"
    by (cases "set_position (ops motor) (ctx motor) pulse") auto
  have "ops_set_position ?set pulse =
          (err, motor\<lparr>ctx := c, polarity := pol, position := percent,
                        driver_calls := driver_calls motor @ [Set_position pulse]\<rparr>)"
    using d by (simp add: ops_set_position_def)
  then have "servo_motor_class_set_position motor percent pol =
               Some (err, motor\<lparr>ctx := c, polarity := pol, position := percent,
                                driver_calls := driver_calls motor @ [Set_position pulse]\<rparr>)"
    using sp by simp
  then show "\<exists>pulse.
         (if 0 < sint p
          then servo_motor_class_scale 0 100 (mid_pulse_ms motor) (max_pulse_ms motor) p
          else servo_motor_class_scale (- 100) 0 (min_pulse_ms motor) (mid_pulse_ms motor) p)
           = Some pulse \<and>
         servo_motor_class_set_position motor percent pol =
           Some (ops_set_position ?set pulse) \<and>
         (\<exists>err c.
            set_position (ops motor) (ctx motor) pulse = (err, c) \<and>
            servo_motor_class_set_position motor percent pol =
              Some (err, motor\<lparr>ctx := c, polarity := pol, position := percent,
                               driver_calls := driver_calls motor @ [Set_position pulse]\<rparr>))"
    using pulse sp d by blast
next
  assume b: "command motor = SERVO_MOTOR_COMMAND_FLOAT \<and> position motor = 50 \<and>
    default_pulse_config motor \<and> sysfs_streq buf ''run'' \<and>
    pulse50 = (if polarity motor = SERVO_MOTOR_POLARITY_NORMAL then 1950 else 1050)"
  show "servo_motor_class_scale 0 100 1500 2400 50 = Some 1950"
    by (simp add: servo_motor_class_scale_def)
  let ?run = "motor\<lparr>command := SERVO_MOTOR_COMMAND_RUN\<rparr>"
  have same: "?run\<lparr>polarity := polarity motor, position := position motor\<rparr> = ?run"
    by simp
  have "servo_motor_class_set_position ?run (position motor) (polarity motor) =
          Some (ops_set_position
                  (?run\<lparr>polarity := polarity motor, position := position motor\<rparr>) pulse50)"
  proof (rule set_position_running
      [where p = "if polarity motor = SERVO_MOTOR_POLARITY_INVERTED then - 50 else 50"])
    show "command ?run = SERVO_MOTOR_COMMAND_RUN" by simp
    show "(if polarity motor = SERVO_MOTOR_POLARITY_INVERTED then - 50 else 50) =
            (if polarity motor = SERVO_MOTOR_POLARITY_INVERTED
             then - position motor else position motor)"
      using b by simp
    show "(if 0 < sint (if polarity motor = SERVO_MOTOR_POLARITY_INVERTED
                        then - 50 else 50 :: cint)
           then servo_motor_class_scale 0 100 (mid_pulse_ms ?run) (max_pulse_ms ?run)
                  (if polarity motor = SERVO_MOTOR_POLARITY_INVERTED then - 50 else 50)
           else servo_motor_class_scale (- 100) 0 (min_pulse_ms ?run) (mid_pulse_ms ?run)
                  (if polarity motor = SERVO_MOTOR_POLARITY_INVERTED then - 50 else 50)) =
            Some pulse50"
      using b
      by (cases "polarity motor")
        (simp_all add: default_pulse_config_def servo_motor_class_scale_def)
  qed
  then have sp: "servo_motor_class_set_position ?run (position motor) (polarity motor) =
                   Some (ops_set_position ?run pulse50)"
    by (simp only: same)
  obtain err motor' where r: "ops_set_position ?run pulse50 = (err, motor')"
    by (cases "ops_set_position ?run pulse50") auto
  have cs: "command_store motor buf sz =
              (case servo_motor_class_set_position ?run (position motor) (polarity motor) of
                 None \<Rightarrow> None
               | Some (err, motor') \<Rightarrow> Some (if err \<noteq> 0 then err else sz, motor'))"
    using b by (intro command_store_float_to_run) simp_all
  have "command_store motor buf sz = Some (if err \<noteq> 0 then err else sz, motor')"
    by (simp add: cs sp r)
  moreover have "driver_calls motor' = driver_calls motor @ [Set_position pulse50]"
    using driver_calls_ops_set_position [OF r] by simp
  moreover have "set_position (ops motor) (ctx motor) pulse50 = (err, ctx motor')"
    using r by (auto simp: ops_set_position_def split: prod.splits)
  ultimately show "\<exists>err motor'.
         ops_set_position ?run pulse50 = (err, motor') \<and>
         command_store motor buf sz = Some (if err \<noteq> 0 then err else sz, motor') \<and>
         driver_calls motor' = driver_calls motor @ [Set_position pulse50] \<and>
         set_position (ops motor) (ctx motor) pulse50 = (err, ctx motor')"
    using r by blast
qed

theorem set_position_pulse_witness:
  "command (example_motor echo_ops\<lparr>command := SERVO_MOTOR_COMMAND_RUN\<rparr>) = SERVO_MOTOR_COMMAND_RUN \<and>
   servo_motor_class_scale 0 100 1500 2400 25 = Some 1725 \<and>
   servo_motor_class_set_position (example_motor echo_ops\<lparr>command := SERVO_MOTOR_COMMAND_RUN\<rparr>)
       25 SERVO_MOTOR_POLARITY_NORMAL =
     Some (0, example_motor echo_ops
                \<lparr>ctx := 1725, command := SERVO_MOTOR_COMMAND_RUN, position := 25,
                 driver_calls := [Set_position 1725]\<rparr>) \<and>
   command (example_motor echo_ops\<lparr>position := 50\<rparr>) = SERVO_MOTOR_COMMAND_FLOAT \<and>
   position (example_motor echo_ops\<lparr>position := 50\<rparr>) = 50 \<and>
   default_pulse_config (example_motor echo_ops\<lparr>position := 50\<rparr>) \<and>
   sysfs_streq ''run'' ''run'' \<and>
   command_store (example_motor echo_ops\<lparr>position := 50\<rparr>) ''run'' 3 =
     Some (3, example_motor echo_ops
                \<lparr>ctx := 1950, command := SERVO_MOTOR_COMMAND_RUN, position := 50,
                 driver_calls := [Set_position 1950]\<rparr>)"
  using set_position_pulse
    [of "example_motor echo_ops\<lparr>command := SERVO_MOTOR_COMMAND_RUN\<rparr>" 25
        SERVO_MOTOR_POLARITY_NORMAL 25 "''run''" 0 0]
    set_position_pulse
    [of "example_motor echo_ops\<lparr>position := 50\<rparr>" 0 SERVO_MOTOR_POLARITY_NORMAL 0 "''run''" 1950 3]
  by (auto simp: example_motor_def echo_ops_def ops_set_position_def default_pulse_config_def
        servo_motor_class_scale_def)

subsection \<open>Setting a position while the motor floats\<close>

text \<open>
  Claim C8. While the command is Float, \<open>servo_motor_class_set_position\<close> records the
  percentage and the polarity in the device, makes no driver call (the history of calls
  and the driver's context are as before) and returns 0, for any percentage. Writing
  \<open>run\<close> afterwards makes one driver call, \<open>set_position\<close> with the pulse that the
  scaling gives for the recorded percentage under the recorded polarity.
\<close>

theorem set_position_while_floating:
  assumes "command motor = SERVO_MOTOR_COMMAND_FLOAT"
    and "staged = motor\<lparr>polarity := pol, position := percent\<rparr>"
    and "p = (if pol = SERVO_MOTOR_POLARITY_INVERTED then - percent else percent)"
  shows "servo_motor_class_set_position motor percent pol = Some (0, staged) \<and>
         driver_calls staged = driver_calls motor \<and> ctx staged = ctx motor \<and>
         (\<exists>pulse err motor'.
            (if 0 < sint p
             then servo_motor_class_scale 0 100 (mid_pulse_ms motor) (max_pulse_ms motor) p
             else servo_motor_class_scale (- 100) 0 (min_pulse_ms motor) (mid_pulse_ms motor) p)
              = Some pulse \<and>
            ops_set_position (staged\<lparr>command := SERVO_MOTOR_COMMAND_RUN\<rparr>) pulse = (err, motor') \<and>
            command_store staged ''run'' sz = Some (if err \<noteq> 0 then err else sz, motor') \<and>
            driver_calls motor' = driver_calls motor @ [Set_position pulse])"
proof (intro conjI)
  show first: "servo_motor_class_set_position motor percent pol = Some (0, staged)"
    using assms by (simp add: servo_motor_class_set_position_def)
  show "driver_calls staged = driver_calls motor" using assms(2) by simp
  show "ctx staged = ctx motor" using assms(2) by simp
  let ?run = "staged\<lparr>command := SERVO_MOTOR_COMMAND_RUN\<rparr>"
  obtain pulse where pulse: "(if 0 < sint p
          then servo_motor_class_scale 0 100 (mid_pulse_ms ?run) (max_pulse_ms ?run) p
          else servo_motor_class_scale (- 100) 0 (min_pulse_ms ?run) (mid_pulse_ms ?run) p)
           = Some pulse"
    using scale_upper_defined [of "mid_pulse_ms ?run" "max_pulse_ms ?run" p]
      scale_lower_defined [of "min_pulse_ms ?run" "mid_pulse_ms ?run" p]
    by (cases "0 < sint p") auto
  have same: "?run\<lparr>polarity := polarity staged, position := position staged\<rparr> = ?run"
    by simp
  have "servo_motor_class_set_position ?run (position staged) (polarity staged) =
          Some (ops_set_position
                  (?run\<lparr>polarity := polarity staged, position := position staged\<rparr>) pulse)"
    using pulse assms(2,3) by (intro set_position_running [where p = p]) simp_all
  then have sp: "servo_motor_class_set_position ?run (position staged) (polarity staged) =
                   Some (ops_set_position ?run pulse)"
    by (simp only: same)
  obtain err motor' where r: "ops_set_position ?run pulse = (err, motor')"
    by (cases "ops_set_position ?run pulse") auto
  have cs: "command_store staged ''run'' sz =
              (case servo_motor_class_set_position ?run (position staged) (polarity staged) of
                 None \<Rightarrow> None
               | Some (err, motor') \<Rightarrow> Some (if err \<noteq> 0 then err else sz, motor'))"
    using assms(1,2) by (intro command_store_float_to_run) simp_all
  have "command_store staged ''run'' sz = Some (if err \<noteq> 0 then err else sz, motor')"
    by (simp add: cs sp r)
  moreover have "driver_calls motor' = driver_calls motor @ [Set_position pulse]"
    using driver_calls_ops_set_position [OF r] assms(2) by simp
  moreover have "(if 0 < sint p
             then servo_motor_class_scale 0 100 (mid_pulse_ms motor) (max_pulse_ms motor) p
             else servo_motor_class_scale (- 100) 0 (min_pulse_ms motor) (mid_pulse_ms motor) p)
              = Some pulse"
  proof -
    have "mid_pulse_ms ?run = mid_pulse_ms motor" "max_pulse_ms ?run = max_pulse_ms motor"
      "min_pulse_ms ?run = min_pulse_ms motor"
      using assms(2) by simp_all
    then show ?thesis using pulse by (simp only:)
  qed
  ultimately show "\<exists>pulse err motor'.
            (if 0 < sint p
             then servo_motor_class_scale 0 100 (mid_pulse_ms motor) (max_pulse_ms motor) p
             else servo_motor_class_scale (- 100) 0 (min_pulse_ms motor) (mid_pulse_ms motor) p)
              = Some pulse \<and>
            ops_set_position ?run pulse = (err, motor') \<and>
            command_store staged ''run'' sz = Some (if err \<noteq> 0 then err else sz, motor') \<and>
            driver_calls motor' = driver_calls motor @ [Set_position pulse]"
    using r by blast
qed

theorem set_position_while_floating_witness:
  "command (example_motor echo_ops) = SERVO_MOTOR_COMMAND_FLOAT \<and>
   servo_motor_class_set_position (example_motor echo_ops) 80 SERVO_MOTOR_POLARITY_INVERTED =
     Some (0, example_motor echo_ops
                \<lparr>polarity := SERVO_MOTOR_POLARITY_INVERTED, position := 80\<rparr>) \<and>
   servo_motor_class_scale (- 100) 0 600 1500 (- 80) = Some 780 \<and>
   command_store
       (example_motor echo_ops\<lparr>polarity := SERVO_MOTOR_POLARITY_INVERTED, position := 80\<rparr>)
       ''run'' 3 =
     Some (3, example_motor echo_ops
                \<lparr>ctx := 780, command := SERVO_MOTOR_COMMAND_RUN,
                 polarity := SERVO_MOTOR_POLARITY_INVERTED, position := 80,
                 driver_calls := [Set_position 780]\<rparr>)"
  using set_position_while_floating
    [where motor = "example_motor echo_ops"
       and staged = "example_motor echo_ops
                       \<lparr>polarity := SERVO_MOTOR_POLARITY_INVERTED, position := 80\<rparr>"
       and pol = SERVO_MOTOR_POLARITY_INVERTED and percent = 80 and p = "- 80" and sz = 3]
  by (auto simp: example_motor_def echo_ops_def ops_set_position_def
        servo_motor_class_scale_def)

subsection \<open>Writing the pulse attributes\<close>

text \<open>
  Claim C9. Writing 250 to \<open>min_pulse_ms\<close>, 1800 to \<open>mid_pulse_ms\<close> or 2800 to
  \<open>max_pulse_ms\<close> returns \<open>-EINVAL\<close> and leaves the device as it was, as does any value
  outside the attribute's range. A value inside the range is stored and the byte count
  returned: the device afterwards is the device before with that one field replaced, so
  no driver call has been made and no other field has changed.
\<close>

theorem pulse_store_bounds:
  "min_pulse_ms_store motor (Some 250) count = (- EINVAL, motor) \<and>
   mid_pulse_ms_store motor (Some 1800) count = (- EINVAL, motor) \<and>
   max_pulse_ms_store motor (Some 2800) count = (- EINVAL, motor) \<and>
   (300 \<le> v \<and> v \<le> 700 \<longrightarrow>
      min_pulse_ms_store motor (Some v) count = (count, motor\<lparr>min_pulse_ms := v\<rparr>)) \<and>
   (1300 \<le> v \<and> v \<le> 1700 \<longrightarrow>
      mid_pulse_ms_store motor (Some v) count = (count, motor\<lparr>mid_pulse_ms := v\<rparr>)) \<and>
   (2300 \<le> v \<and> v \<le> 2700 \<longrightarrow>
      max_pulse_ms_store motor (Some v) count = (count, motor\<lparr>max_pulse_ms := v\<rparr>)) \<and>
   (v < 300 \<or> 700 < v \<longrightarrow> min_pulse_ms_store motor (Some v) count = (- EINVAL, motor)) \<and>
   (v < 1300 \<or> 1700 < v \<longrightarrow> mid_pulse_ms_store motor (Some v) count = (- EINVAL, motor)) \<and>
   (v < 2300 \<or> 2700 < v \<longrightarrow> max_pulse_ms_store motor (Some v) count = (- EINVAL, motor))"
  by (auto simp: min_pulse_ms_store_def mid_pulse_ms_store_def max_pulse_ms_store_def)

theorem pulse_store_bounds_witness:
  "min_pulse_ms_store (example_motor echo_ops) (Some 250) 4 = (- EINVAL, example_motor echo_ops) \<and>
   (300 :: cunsigned) \<le> 650 \<and> (650 :: cunsigned) \<le> 700 \<and>
   min_pulse_ms_store (example_motor echo_ops) (Some 650) 4 =
     (4, example_motor echo_ops\<lparr>min_pulse_ms := 650\<rparr>) \<and>
   (1300 :: cunsigned) \<le> 1400 \<and> (1400 :: cunsigned) \<le> 1700 \<and>
   mid_pulse_ms_store (example_motor echo_ops) (Some 1400) 5 =
     (5, example_motor echo_ops\<lparr>mid_pulse_ms := 1400\<rparr>) \<and>
   (2300 :: cunsigned) \<le> 2700 \<and> (2700 :: cunsigned) \<le> 2700 \<and>
   max_pulse_ms_store (example_motor echo_ops) (Some 2700) 5 =
     (5, example_motor echo_ops\<lparr>max_pulse_ms := 2700\<rparr>) \<and>
   driver_calls (example_motor echo_ops\<lparr>max_pulse_ms := 2700\<rparr>) = []"
  using pulse_store_bounds [of "example_motor echo_ops" 4 650]
    pulse_store_bounds [of "example_motor echo_ops" 5 1400]
    pulse_store_bounds [of "example_motor echo_ops" 5 2700]
  by (simp add: example_motor_def)

subsection \<open>Reading the position attribute\<close>

text \<open>
  Claim C2. \<open>position_show\<close> asks the driver for its raw pulse once. A negative answer
  is returned as it is. At the answer 0 the stored position is printed. At an answer
  above 0 and below \<open>mid_pulse_ms\<close> the value printed is
  \<open>servo_motor_class_scale min mid (-100) 0 raw\<close>, and at an answer from \<open>mid_pulse_ms\<close>
  upwards it is \<open>servo_motor_class_scale mid max 0 100 raw\<close>; where that call divides by
  zero (two equal pulse bounds, which the store functions cannot produce) nothing is
  printed. This holds for every state of the device.
\<close>

theorem position_show_reports:
  assumes "get_position (ops motor) (ctx motor) = (raw, c)"
    and "motor' = motor\<lparr>ctx := c, driver_calls := driver_calls motor @ [Get_position]\<rparr>"
  shows "(sint raw < 0 \<longrightarrow> position_show motor = Some (Inl raw, motor')) \<and>
         (raw = 0 \<longrightarrow> position_show motor = Some (Inr (position motor), motor')) \<and>
         (0 < sint raw \<and> sint raw < uint (mid_pulse_ms motor) \<longrightarrow>
            position_show motor =
              map_option (\<lambda>v. (Inr v, motor'))
                (servo_motor_class_scale (min_pulse_ms motor) (mid_pulse_ms motor) (- 100) 0 raw)) \<and>
         (0 < sint raw \<and> uint (mid_pulse_ms motor) \<le> sint raw \<longrightarrow>
            position_show motor =
              map_option (\<lambda>v. (Inr v, motor'))
                (servo_motor_class_scale (mid_pulse_ms motor) (max_pulse_ms motor) 0 100 raw))"
  using position_show_error [OF assms] position_show_idle [OF assms]
    position_show_low [OF assms] position_show_high [OF assms]
  by blast

theorem position_show_reports_witness:
  "position_show (example_motor echo_ops\<lparr>ctx := - 5\<rparr>) =
     Some (Inl (- 5), example_motor echo_ops\<lparr>ctx := - 5, driver_calls := [Get_position]\<rparr>) \<and>
   position_show (example_motor echo_ops\<lparr>position := 30\<rparr>) =
     Some (Inr 30, example_motor echo_ops\<lparr>position := 30, driver_calls := [Get_position]\<rparr>) \<and>
   servo_motor_class_scale 600 1500 (- 100) 0 1140 = Some (- 40) \<and>
   position_show (example_motor echo_ops\<lparr>ctx := 1140\<rparr>) =
     Some (Inr (- 40), example_motor echo_ops\<lparr>ctx := 1140, driver_calls := [Get_position]\<rparr>) \<and>
   servo_motor_class_scale 1500 2400 0 100 1950 = Some 50 \<and>
   position_show (example_motor echo_ops\<lparr>ctx := 1950\<rparr>) =
     Some (Inr 50, example_motor echo_ops\<lparr>ctx := 1950, driver_calls := [Get_position]\<rparr>)"
  using position_show_reports
    [where motor = "example_motor echo_ops\<lparr>ctx := - 5\<rparr>" and raw = "- 5" and c = "- 5"
       and motor' = "example_motor echo_ops\<lparr>ctx := - 5, driver_calls := [Get_position]\<rparr>"]
    position_show_reports
    [where motor = "example_motor echo_ops\<lparr>position := 30\<rparr>" and raw = 0 and c = 0
       and motor' = "example_motor echo_ops\<lparr>position := 30, driver_calls := [Get_position]\<rparr>"]
    position_show_reports
    [where motor = "example_motor echo_ops\<lparr>ctx := 1140\<rparr>" and raw = 1140 and c = 1140
       and motor' = "example_motor echo_ops\<lparr>ctx := 1140, driver_calls := [Get_position]\<rparr>"]
    position_show_reports
    [where motor = "example_motor echo_ops\<lparr>ctx := 1950\<rparr>" and raw = 1950 and c = 1950
       and motor' = "example_motor echo_ops\<lparr>ctx := 1950, driver_calls := [Get_position]\<rparr>"]
  by (simp add: example_motor_def echo_ops_def servo_motor_class_scale_def)

subsection \<open>The pulse of an inverted 40 percent\<close>

text \<open>
  Claim C4, as stated: with polarity Inverted, position 40 and the default pulses the
  percentage becomes \<open>-40\<close> and the driver pulse is 900. The percentage is negated, but
  the pulse that the code computes and passes to the driver is 1140, which is also the
  value of the spec's own formula: \<open>(-40 + 100) * (1500 - 600) / 100 + 600\<close>.
\<close>

theorem inverted_40_counterexample:
  "servo_motor_class_scale (- 100) 0 600 1500 (- 40) = Some 1140 \<and>
   (1140 :: cint) \<noteq> 900 \<and>
   scale_formula (- 100) 0 600 1500 (- 40) = 1140 \<and>
   servo_motor_class_set_position
       (example_motor echo_ops\<lparr>command := SERVO_MOTOR_COMMAND_RUN\<rparr>)
       40 SERVO_MOTOR_POLARITY_INVERTED =
     Some (0, example_motor echo_ops
                \<lparr>ctx := 1140, command := SERVO_MOTOR_COMMAND_RUN,
                 polarity := SERVO_MOTOR_POLARITY_INVERTED, position := 40,
                 driver_calls := [Set_position 1140]\<rparr>)"
  by (simp add: servo_motor_class_scale_def scale_formula_def signed_divide_int_def
        servo_motor_class_set_position_def example_motor_def echo_ops_def
        ops_set_position_def word_sless_alt Let_def)

text \<open>
  Claim C4, amended: with polarity Inverted, position 40 and the default pulses, a
  running motor's driver is called with the pulse
  \<open>servo_motor_class_scale (-100) 0 600 1500 (-40) = 1140\<close>.
\<close>

theorem inverted_40_pulse:
  assumes "command motor = SERVO_MOTOR_COMMAND_RUN" and "default_pulse_config motor"
  shows "servo_motor_class_scale (- 100) 0 600 1500 (- 40) = Some 1140 \<and>
         servo_motor_class_set_position motor 40 SERVO_MOTOR_POLARITY_INVERTED =
           Some (ops_set_position
                   (motor\<lparr>polarity := SERVO_MOTOR_POLARITY_INVERTED, position := 40\<rparr>) 1140)"
  using assms
  by (simp add: servo_motor_class_scale_def servo_motor_class_set_position_def
        default_pulse_config_def word_sless_alt Let_def)

theorem inverted_40_pulse_witness:
  "command (example_motor echo_ops\<lparr>command := SERVO_MOTOR_COMMAND_RUN\<rparr>) =
     SERVO_MOTOR_COMMAND_RUN \<and>
   default_pulse_config (example_motor echo_ops\<lparr>command := SERVO_MOTOR_COMMAND_RUN\<rparr>) \<and>
   servo_motor_class_set_position
       (example_motor echo_ops\<lparr>command := SERVO_MOTOR_COMMAND_RUN\<rparr>)
       40 SERVO_MOTOR_POLARITY_INVERTED =
     Some (0, example_motor echo_ops
                \<lparr>ctx := 1140, command := SERVO_MOTOR_COMMAND_RUN,
                 polarity := SERVO_MOTOR_POLARITY_INVERTED, position := 40,
                 driver_calls := [Set_position 1140]\<rparr>)"
  using inverted_40_pulse [of "example_motor echo_ops\<lparr>command := SERVO_MOTOR_COMMAND_RUN\<rparr>"]
  by (simp add: example_motor_def echo_ops_def ops_set_position_def default_pulse_config_def)

subsection \<open>A driver failure while the position is written\<close>

text \<open>
  Claim C5, as stated: a new position is stored only when the driver call succeeds, and
  a failing call leaves the stored position unchanged. With a driver that fails, writing
  10 over the stored position 0 returns the driver's error and the stored position is 10
  afterwards.
\<close>

theorem position_store_failure_counterexample:
  "position (example_motor failing_ops\<lparr>command := SERVO_MOTOR_COMMAND_RUN\<rparr>) = 0 \<and>
   position_store (example_motor failing_ops\<lparr>command := SERVO_MOTOR_COMMAND_RUN\<rparr>)
       (Some 10) 3 =
     Some (- 5, example_motor failing_ops
                  \<lparr>command := SERVO_MOTOR_COMMAND_RUN, position := 10,
                   driver_calls := [Set_position 1590]\<rparr>) \<and>
   position (example_motor failing_ops
               \<lparr>command := SERVO_MOTOR_COMMAND_RUN, position := 10,
                driver_calls := [Set_position 1590]\<rparr>) = 10"
  by (simp add: position_store_def servo_motor_class_set_position_def
        servo_motor_class_scale_def example_motor_def failing_ops_def ops_set_position_def
        word_sless_alt Let_def)

text \<open>
  Claim C5, amended: for every new position in \<open>[-100, 100]\<close> that differs from the stored
  one, \<open>position_store\<close> stores the new position before the driver is called and does not
  restore the old one: the stored position is the new one whether the driver call
  succeeds or fails. The value the driver returns, when not zero, is returned as it is;
  otherwise the byte count is.
\<close>

theorem position_store_keeps_new_position:
  assumes "- 100 \<le> sint v" and "sint v \<le> 100" and "v \<noteq> position motor"
  shows "\<exists>err motor'.
           servo_motor_class_set_position motor v (polarity motor) = Some (err, motor') \<and>
           position_store motor (Some v) count = Some (if err \<noteq> 0 then err else count, motor') \<and>
           position motor' = v \<and>
           (command motor = SERVO_MOTOR_COMMAND_RUN \<longrightarrow>
              (\<exists>pulse. ops_set_position (motor\<lparr>position := v\<rparr>) pulse = (err, motor')))"
proof -
  obtain err motor' where
    sp: "servo_motor_class_set_position motor v (polarity motor) = Some (err, motor')"
    using set_position_defined [of motor v "polarity motor"] by blast
  have range: "\<not> (100 <s v \<or> v <s - 100)"
    using assms(1,2) by (simp add: word_sless_alt)
  have "position_store motor (Some v) count = Some (if err \<noteq> 0 then err else count, motor')"
    using range assms(3) by (simp add: position_store_def sp)
  moreover have "position motor' = v"
    using set_position_stores [OF sp] by simp
  moreover have "\<exists>pulse. ops_set_position (motor\<lparr>position := v\<rparr>) pulse = (err, motor')"
    if run: "command motor = SERVO_MOTOR_COMMAND_RUN"
  proof -
    obtain pulse where "servo_motor_class_set_position motor v (polarity motor) =
        Some (ops_set_position (motor\<lparr>polarity := polarity motor, position := v\<rparr>) pulse)"
      using set_position_calls_driver [OF run refl, of "polarity motor" v] by blast
    then have "ops_set_position (motor\<lparr>position := v\<rparr>) pulse = (err, motor')"
      using sp by simp
    then show ?thesis by blast
  qed
  ultimately show ?thesis using sp by blast
qed

theorem position_store_keeps_new_position_witness:
  "- 100 \<le> sint (10 :: cint) \<and> sint (10 :: cint) \<le> 100 \<and>
   10 \<noteq> position (example_motor failing_ops\<lparr>command := SERVO_MOTOR_COMMAND_RUN\<rparr>) \<and>
   position_store (example_motor failing_ops\<lparr>command := SERVO_MOTOR_COMMAND_RUN\<rparr>)
       (Some 10) 3 =
     Some (- 5, example_motor failing_ops
                  \<lparr>command := SERVO_MOTOR_COMMAND_RUN, position := 10,
                   driver_calls := [Set_position 1590]\<rparr>) \<and>
   position_store (example_motor echo_ops\<lparr>command := SERVO_MOTOR_COMMAND_RUN\<rparr>)
       (Some 10) 3 =
     Some (3, example_motor echo_ops
                \<lparr>ctx := 1590, command := SERVO_MOTOR_COMMAND_RUN, position := 10,
                 driver_calls := [Set_position 1590]\<rparr>)"
  using position_store_keeps_new_position
    [of 10 "example_motor failing_ops\<lparr>command := SERVO_MOTOR_COMMAND_RUN\<rparr>" 3]
    position_store_keeps_new_position
    [of 10 "example_motor echo_ops\<lparr>command := SERVO_MOTOR_COMMAND_RUN\<rparr>" 3]
  by (simp add: position_store_def servo_motor_class_set_position_def
        servo_motor_class_scale_def example_motor_def failing_ops_def echo_ops_def
        ops_set_position_def word_sless_alt Let_def)

subsection \<open>The scaling and the formula\<close>

text \<open>
  Claim C3, as stated: for all arguments with \<open>in_max > in_min\<close>,
  \<open>in_min \<le> value \<le> in_max\<close> and \<open>out_min \<le> out_max\<close> the function returns the value of the
  formula. The product \<open>(value - in_min) * (out_max - out_min)\<close> is computed in the width of
  \<open>long\<close> and wraps there. From \<open>INT_MIN\<close> to \<open>INT_MAX\<close> on both sides and at the value
  \<open>INT_MAX\<close> the formula gives \<open>INT_MAX\<close>; the function returns \<open>INT_MIN\<close>, and
  \<open>INT_MAX - 1\<close> where \<open>long\<close> has 64 bits.
\<close>

theorem scale_overflow_counterexample:
  "sint (- 2147483648 :: cint) < sint (2147483647 :: cint) \<and>
   sint (- 2147483648 :: cint) \<le> sint (2147483647 :: cint) \<and>
   sint (2147483647 :: cint) \<le> sint (2147483647 :: cint) \<and>
   scale_formula (sint (- 2147483648 :: cint)) (sint (2147483647 :: cint))
     (sint (- 2147483648 :: cint)) (sint (2147483647 :: cint)) (sint (2147483647 :: cint)) =
     2147483647 \<and>
   servo_motor_class_scale (- 2147483648) 2147483647 (- 2147483648) 2147483647 2147483647 =
     Some (- 2147483648) \<and>
   sint (- 2147483648 :: cint) = - 2147483648 \<and>
   servo_motor_class_scale_lp64 (- 2147483648) 2147483647 (- 2147483648) 2147483647
     2147483647 = Some 2147483646 \<and>
   sint (2147483646 :: cint) = 2147483646"
  by (simp add: servo_motor_class_scale_def servo_motor_class_scale_lp64_def
        scale_formula_def signed_divide_int_def)

text \<open>
  Claim C3, amended: for all arguments, read as signed integers, with \<open>in_max > in_min\<close>,
  \<open>in_min \<le> value \<le> in_max\<close>, \<open>out_min \<le> out_max\<close> and the product
  \<open>(value - in_min) * (out_max - out_min)\<close> below \<open>2 ^ 32\<close>, the function returns a value,
  the same for either width of \<open>long\<close>, and it is
  \<open>(value - in_min) * (out_max - out_min) / (in_max - in_min) + out_min\<close> with the division
  truncating toward zero. In particular the scaling of 0 and of 100 from \<open>[0, 100]\<close> to
  \<open>[1500, 2400]\<close> is 1500 and 2400, and that of \<open>-100\<close> from \<open>[-100, 0]\<close> to
  \<open>[600, 1500]\<close> is 600.
\<close>

theorem scale_is_formula:
  "(sint in_min < sint in_max \<and> sint in_min \<le> sint val \<and> sint val \<le> sint in_max \<and>
    sint out_min \<le> sint out_max \<and>
    (sint val - sint in_min) * (sint out_max - sint out_min) < 2 ^ 32 \<longrightarrow>
      (\<exists>r. servo_motor_class_scale in_min in_max out_min out_max val = Some r \<and>
           servo_motor_class_scale_lp64 in_min in_max out_min out_max val = Some r \<and>
           sint r = scale_formula (sint in_min) (sint in_max) (sint out_min) (sint out_max)
                      (sint val))) \<and>
   servo_motor_class_scale 0 100 1500 2400 0 = Some 1500 \<and>
   servo_motor_class_scale 0 100 1500 2400 100 = Some 2400 \<and>
   servo_motor_class_scale (- 100) 0 600 1500 (- 100) = Some 600"
proof (intro conjI impI)
  assume h: "sint in_min < sint in_max \<and> sint in_min \<le> sint val \<and> sint val \<le> sint in_max \<and>
    sint out_min \<le> sint out_max \<and>
    (sint val - sint in_min) * (sint out_max - sint out_min) < 2 ^ 32"
  define a where "a = sint val - sint in_min"
  define b where "b = sint out_max - sint out_min"
  define c where "c = sint in_max - sint in_min"
  have ua: "uint (val - in_min) = a" unfolding a_def using h by (intro uint_diff_sint) simp
  have ub: "uint (out_max - out_min) = b" unfolding b_def using h by (intro uint_diff_sint) simp
  have uc: "uint (in_max - in_min) = c" unfolding c_def using h by (intro uint_diff_sint) simp
  have pos: "0 \<le> a" "a \<le> c" "0 \<le> b" "0 < c"
    using h by (simp_all add: a_def b_def c_def)
  have ne: "in_max \<noteq> in_min" using h by auto
  have wrap: "uint (val - in_min) * uint (out_max - out_min) < 2 ^ 32"
    using h by (simp add: ua ub a_def b_def)
  define q where "q = a * b div c"
  have q: "0 \<le> q" "q \<le> b" using scaled_quotient_le [OF pos] by (simp_all add: q_def)
  have r: "servo_motor_class_scale in_min in_max out_min out_max val =
             Some (word_of_int q + out_min)"
    using scale_no_wrap [OF ne wrap] by (simp add: ua ub uc q_def)
  then have r64: "servo_motor_class_scale_lp64 in_min in_max out_min out_max val =
             Some (word_of_int q + out_min)"
    using scale_widths_agree [OF wrap] by simp
  have "word_of_int q + out_min = (word_of_int (q + sint out_min) :: 32 word)" by simp
  then have "sint (word_of_int q + out_min :: 32 word) = signed_take_bit 31 (q + sint out_min)"
    by (simp only: sint_sbintrunc') simp
  also have "\<dots> = q + sint out_min"
  proof (rule signed_take_bit_int_eq_self)
    show "- (2 ^ 31) \<le> q + sint out_min" using q(1) sint_ge [of out_min] by simp
    show "q + sint out_min < 2 ^ 31" using q(2) sint_lt [of out_max] by (simp add: b_def)
  qed
  also have "\<dots> = scale_formula (sint in_min) (sint in_max) (sint out_min) (sint out_max) (sint val)"
    using pos by (simp add: scale_formula_def sdiv_nonneg_pos q_def a_def b_def c_def)
  finally show "\<exists>r. servo_motor_class_scale in_min in_max out_min out_max val = Some r \<and>
           servo_motor_class_scale_lp64 in_min in_max out_min out_max val = Some r \<and>
           sint r = scale_formula (sint in_min) (sint in_max) (sint out_min) (sint out_max)
                      (sint val)"
    using r r64 by simp
qed (simp_all add: servo_motor_class_scale_def)

theorem scale_is_formula_witness:
  "sint (- 100 :: cint) < sint (0 :: cint) \<and> sint (- 100 :: cint) \<le> sint (- 40 :: cint) \<and>
   sint (- 40 :: cint) \<le> sint (0 :: cint) \<and> sint (600 :: cint) \<le> sint (1500 :: cint) \<and>
   (sint (- 40 :: cint) - sint (- 100 :: cint)) * (sint (1500 :: cint) - sint (600 :: cint))
     < (2 :: int) ^ 32 \<and>
   servo_motor_class_scale (- 100) 0 600 1500 (- 40) = Some 1140 \<and>
   servo_motor_class_scale_lp64 (- 100) 0 600 1500 (- 40) = Some 1140 \<and>
   scale_formula (- 100) 0 600 1500 (- 40) = 1140"
  using scale_is_formula [of "- 100" 0 "- 40" 600 1500]
  by (simp add: servo_motor_class_scale_def servo_motor_class_scale_lp64_def
        scale_formula_def signed_divide_int_def)

subsection \<open>Raw pulses above the maximum\<close>

text \<open>
  Claim C10, as stated: every raw pulse strictly greater than \<open>max_pulse_ms\<close> is read as a
  value strictly greater than 100. With the default pulses the raw pulse 2401 is read as
  \<open>901 * 100 / 900 = 100\<close>.
\<close>

theorem position_show_beyond_max_counterexample:
  "mid_pulse_ms (example_motor echo_ops\<lparr>ctx := 2401\<rparr>) <
     max_pulse_ms (example_motor echo_ops\<lparr>ctx := 2401\<rparr>) \<and>
   max_pulse_ms (example_motor echo_ops\<lparr>ctx := 2401\<rparr>) < 2401 \<and>
   get_position (ops (example_motor echo_ops\<lparr>ctx := 2401\<rparr>))
     (ctx (example_motor echo_ops\<lparr>ctx := 2401\<rparr>)) = (2401, 2401) \<and>
   position_show (example_motor echo_ops\<lparr>ctx := 2401\<rparr>) =
     Some (Inr 100, example_motor echo_ops\<lparr>ctx := 2401, driver_calls := [Get_position]\<rparr>) \<and>
   \<not> 100 < sint (100 :: cint)"
  by (simp add: position_show_def ops_get_position_def servo_motor_class_scale_def
        example_motor_def echo_ops_def word_sless_alt)

text \<open>
  Claim C10, amended: the value read is not clamped to \<open>[-100, 100]\<close>. For every raw
  pulse strictly greater than \<open>max_pulse_ms\<close>, with \<open>mid_pulse_ms < max_pulse_ms\<close> and
  \<open>(raw - mid_pulse_ms) * 100\<close> below \<open>2 ^ 31\<close> so that the product does not wrap,
  \<open>position_show\<close> prints \<open>(raw - mid_pulse_ms) * 100 / (max_pulse_ms - mid_pulse_ms)\<close>. That
  value is at least 100, and it is strictly greater than 100 exactly when
  \<open>100 * (raw - max_pulse_ms) \<ge> max_pulse_ms - mid_pulse_ms\<close>.
\<close>

theorem position_show_beyond_max:
  assumes "get_position (ops motor) (ctx motor) = (raw, c)"
    and "motor' = motor\<lparr>ctx := c, driver_calls := driver_calls motor @ [Get_position]\<rparr>"
    and "mid_pulse_ms motor < max_pulse_ms motor"
    and "uint (max_pulse_ms motor) < sint raw"
    and "(sint raw - uint (mid_pulse_ms motor)) * 100 < 2 ^ 31"
  shows "\<exists>v. position_show motor = Some (Inr v, motor') \<and>
           sint v = (sint raw - uint (mid_pulse_ms motor)) * 100
                      div (uint (max_pulse_ms motor) - uint (mid_pulse_ms motor)) \<and>
           100 \<le> sint v \<and>
           (100 < sint v \<longleftrightarrow>
              uint (max_pulse_ms motor) - uint (mid_pulse_ms motor)
                \<le> 100 * (sint raw - uint (max_pulse_ms motor)))"
proof -
  let ?mid = "mid_pulse_ms motor" and ?max = "max_pulse_ms motor"
  have order: "uint ?mid < uint ?max" using assms(3) by (simp add: word_less_def)
  have pos: "0 < sint raw" using assms(4) uint_nonnegative [of ?max] by linarith
  then have ur: "uint raw = sint raw" by (simp add: uint_of_nonneg_sint)
  define a where "a = sint raw - uint ?mid"
  define d where "d = uint ?max - uint ?mid"
  have d: "0 < d" using order by (simp add: d_def)
  have ad: "d < a" using assms(4) by (simp add: a_def d_def)
  have ua: "uint (raw - ?mid) = a"
    using uint_sub_lem [of ?mid raw] order assms(4) ur by (simp add: a_def)
  have ud: "uint (?max - ?mid) = d"
    using uint_sub_lem [of ?mid ?max] order by (simp add: d_def)
  have ne: "?max \<noteq> ?mid" using assms(3) by auto
  have small: "a * 100 < 2 ^ 31" using assms(5) by (simp add: a_def)
  define q where "q = a * 100 div d"
  have q0: "0 \<le> q" using d ad by (simp add: q_def pos_imp_zdiv_nonneg_iff)
  have "q \<le> a * 100 div 1"
    unfolding q_def using d ad by (intro zdiv_mono2) simp_all
  then have q1: "q < 2 ^ 31" using small by simp
  have "servo_motor_class_scale ?mid ?max 0 100 raw = Some (word_of_int q + 0)"
    using scale_no_wrap [OF ne, of raw 100 0] small by (simp add: ua ud q_def)
  then have sc: "servo_motor_class_scale ?mid ?max 0 100 raw = Some (word_of_int q)"
    by simp
  have sq: "sint (word_of_int q :: 32 word) = q" using q0 q1 by (rule sint_of_small)
  have high: "0 < sint raw \<and> uint ?mid \<le> sint raw" using pos assms(4) order by simp
  have "position_show motor =
          map_option (\<lambda>v. (Inr v, motor')) (servo_motor_class_scale ?mid ?max 0 100 raw)"
    using assms(1,2) high by (rule position_show_high)
  then have shown: "position_show motor = Some (Inr (word_of_int q), motor')"
    by (simp add: sc)
  have ge: "100 \<le> q"
    unfolding q_def using d ad by (simp add: le_div_iff_mult_le)
  have gt: "100 < q \<longleftrightarrow> d \<le> 100 * (a - d)"
  proof -
    have "100 < q \<longleftrightarrow> 101 \<le> q" by auto
    also have "\<dots> \<longleftrightarrow> 101 * d \<le> a * 100"
      unfolding q_def using d by (simp add: le_div_iff_mult_le)
    also have "\<dots> \<longleftrightarrow> d \<le> 100 * (a - d)" by (simp add: algebra_simps)
    finally show ?thesis .
  qed
  have "a - d = sint raw - uint ?max" by (simp add: a_def d_def)
  then show ?thesis using shown sq ge gt unfolding q_def a_def d_def by auto
qed

theorem position_show_beyond_max_witness:
  "get_position (ops (example_motor echo_ops\<lparr>ctx := 2500\<rparr>))
     (ctx (example_motor echo_ops\<lparr>ctx := 2500\<rparr>)) = (2500, 2500) \<and>
   mid_pulse_ms (example_motor echo_ops\<lparr>ctx := 2500\<rparr>) <
     max_pulse_ms (example_motor echo_ops\<lparr>ctx := 2500\<rparr>) \<and>
   uint (max_pulse_ms (example_motor echo_ops\<lparr>ctx := 2500\<rparr>)) < sint (2500 :: cint) \<and>
   (sint (2500 :: cint) - uint (mid_pulse_ms (example_motor echo_ops\<lparr>ctx := 2500\<rparr>))) * 100
     < 2 ^ 31 \<and>
   position_show (example_motor echo_ops\<lparr>ctx := 2500\<rparr>) =
     Some (Inr 111, example_motor echo_ops\<lparr>ctx := 2500, driver_calls := [Get_position]\<rparr>) \<and>
   100 < sint (111 :: cint)"
  using position_show_beyond_max
    [where motor = "example_motor echo_ops\<lparr>ctx := 2500\<rparr>" and raw = 2500 and c = 2500
       and motor' = "example_motor echo_ops\<lparr>ctx := 2500, driver_calls := [Get_position]\<rparr>"]
  by (simp add: position_show_def ops_get_position_def servo_motor_class_scale_def
        example_motor_def echo_ops_def word_sless_alt)

end
